theory Spec2Isabelle
  imports Complex_Main
begin

section \<open>Python values used by both scripts\<close>

text \<open>
  The two scripts, \<^verbatim>\<open>scripts/check_coverage.py\<close> and
  \<^verbatim>\<open>scripts/check_performance_regression.py\<close>, compute with Python floats.
  They are embedded as \<^typ>\<open>real\<close>: every comparison and every arithmetic step of the
  source is kept, rounding and the special values (nan, inf) are not represented.

  A Python \<^verbatim>\<open>dict\<close> is an association list in insertion order. The assignment
  \<^verbatim>\<open>d[k] = v\<close> overwrites the value of a key that is present, at its place, and
  appends a new key at the end; a lookup is \<^const>\<open>map_of\<close>.
\<close>

primrec dict_set :: "'k \<Rightarrow> 'v \<Rightarrow> ('k \<times> 'v) list \<Rightarrow> ('k \<times> 'v) list" where
  "dict_set k v [] = [(k, v)]"
| "dict_set k v (p # ps) = (if fst p = k then (k, v) # ps else p # dict_set k v ps)"

text \<open>\<^verbatim>\<open>s.startswith(p)\<close>\<close>

definition startswith :: "string \<Rightarrow> string \<Rightarrow> bool" where
  "startswith s p = (take (length p) s = p)"


section \<open>check\_coverage.py: the data\<close>

text \<open>
  \<^verbatim>\<open>self.targets\<close>, a dict with the four keys \<^verbatim>\<open>overall\<close>, \<^verbatim>\<open>line\<close>,
  \<^verbatim>\<open>branch\<close> and \<^verbatim>\<open>function\<close>.
\<close>

record targets =
  overall_target :: real
  line_target :: real
  branch_target :: real
  function_target :: real

text \<open>The targets set by \<^verbatim>\<open>CoverageChecker.__init__\<close> (and the defaults of the flags).\<close>

definition default_targets :: targets where
  "default_targets =
     \<lparr>overall_target = 80, line_target = 80, branch_target = 75, function_target = 85\<rparr>"

text \<open>The dict returned by \<^verbatim>\<open>parse_coverage_report\<close>; the values of \<^verbatim>\<open>packages\<close>.\<close>

record package_data =
  line_coverage :: real
  branch_coverage :: real

record coverage_data =
  overall_line_coverage :: real
  overall_branch_coverage :: real
  packages :: "(string \<times> package_data) list"
  raw_line_rate :: real
  raw_branch_rate :: real

text \<open>
  The messages of \<^verbatim>\<open>check_coverage\<close> are f-strings; each is embedded as a constructor
  that carries the values the f-string formats:
  \<^item> \<open>LineCoverageLow v t\<close>: the failure of the overall line check, \<open>v\<close> shown with one
    decimal and the target \<open>t\<close>;
  \<^item> \<open>LineCoverageNear v\<close>: the warning of the overall line check;
  \<^item> \<open>BranchCoverageLow v t\<close>, \<open>BranchCoverageNear v\<close>: the same for the branch check;
  \<^item> \<open>PackageCoverageLow n v t\<close>: the warning for the package named \<open>n\<close>.
\<close>

datatype message =
    LineCoverageLow real real
  | LineCoverageNear real
  | BranchCoverageLow real real
  | BranchCoverageNear real
  | PackageCoverageLow string real real

text \<open>A value of \<^verbatim>\<open>results["details"]\<close>: \<^verbatim>\<open>{"current", "target", "passed"}\<close>.\<close>

record check_detail =
  current :: real
  target :: real
  detail_passed :: bool

record check_results =
  passed :: bool
  failures :: "message list"
  warnings :: "message list"
  details :: "(string \<times> check_detail) list"


section \<open>check\_coverage.py: check\_coverage\<close>

text \<open>Lines 77 to 82: the initial \<^verbatim>\<open>results\<close>.\<close>

definition initial_results :: check_results where
  "initial_results = \<lparr>passed = True, failures = [], warnings = [], details = []\<rparr>"

text \<open>Lines 84 to 100: the overall line check.\<close>

definition check_line :: "targets \<Rightarrow> coverage_data \<Rightarrow> check_results \<Rightarrow> check_results" where
  "check_line tg cd results =
     (let line_cov = overall_line_coverage cd;
          results = results\<lparr>details :=
            dict_set ''line_coverage''
              \<lparr>current = line_cov, target = line_target tg,
               detail_passed = (line_cov \<ge> line_target tg)\<rparr> (details results)\<rparr>
      in if line_cov < line_target tg then
           results\<lparr>passed := False,
                   failures := failures results @ [LineCoverageLow line_cov (line_target tg)]\<rparr>
         else if line_cov < line_target tg + 5 then
           results\<lparr>warnings := warnings results @ [LineCoverageNear line_cov]\<rparr>
         else results)"

text \<open>Lines 102 to 118: the overall branch check.\<close>

definition check_branch :: "targets \<Rightarrow> coverage_data \<Rightarrow> check_results \<Rightarrow> check_results" where
  "check_branch tg cd results =
     (let branch_cov = overall_branch_coverage cd;
          results = results\<lparr>details :=
            dict_set ''branch_coverage''
              \<lparr>current = branch_cov, target = branch_target tg,
               detail_passed = (branch_cov \<ge> branch_target tg)\<rparr> (details results)\<rparr>
      in if branch_cov < branch_target tg then
           results\<lparr>passed := False,
                   failures := failures results @ [BranchCoverageLow branch_cov (branch_target tg)]\<rparr>
         else if branch_cov < branch_target tg + 5 then
           results\<lparr>warnings := warnings results @ [BranchCoverageNear branch_cov]\<rparr>
         else results)"

text \<open>Lines 125 to 128: the target a package is held to.\<close>

definition target_coverage :: "targets \<Rightarrow> string \<Rightarrow> real" where
  "target_coverage tg package_name =
     (if startswith package_name ''ccusage_rs::'' then function_target tg else line_target tg)"

text \<open>Line 136: the key \<^verbatim>\<open>f"package_{package_name}"\<close>.\<close>

definition package_key :: "string \<Rightarrow> string" where
  "package_key package_name = ''package_'' @ package_name"

text \<open>Lines 130 to 134: the entry of \<^verbatim>\<open>details\<close> for a package.\<close>

definition package_result :: "targets \<Rightarrow> string \<Rightarrow> package_data \<Rightarrow> check_detail" where
  "package_result tg package_name pd =
     \<lparr>current = line_coverage pd, target = target_coverage tg package_name,
      detail_passed = (line_coverage pd \<ge> target_coverage tg package_name)\<rparr>"

text \<open>Lines 122 to 141: the body of the loop over the packages.\<close>

definition check_package ::
  "targets \<Rightarrow> string \<Rightarrow> package_data \<Rightarrow> check_results \<Rightarrow> check_results" where
  "check_package tg package_name pd results =
     (let package_line_coverage = line_coverage pd;
          tc = target_coverage tg package_name;
          results = results\<lparr>details :=
            dict_set (package_key package_name) (package_result tg package_name pd)
              (details results)\<rparr>
      in if package_line_coverage < tc then
           results\<lparr>warnings := warnings results
                      @ [PackageCoverageLow package_name package_line_coverage tc]\<rparr>
         else results)"

text \<open>Line 121: the loop, over the items of the dict in insertion order.\<close>

fun check_packages ::
  "targets \<Rightarrow> (string \<times> package_data) list \<Rightarrow> check_results \<Rightarrow> check_results" where
  "check_packages tg [] results = results"
| "check_packages tg ((package_name, pd) # rest) results =
     check_packages tg rest (check_package tg package_name pd results)"

definition check_coverage :: "targets \<Rightarrow> coverage_data \<Rightarrow> check_results" where
  "check_coverage tg cd =
     check_packages tg (packages cd) (check_branch tg cd (check_line tg cd initial_results))"



section \<open>check\_coverage.py: parse\_coverage\_report and main\<close>

text \<open>
  An element of \<^verbatim>\<open>xml.etree.ElementTree\<close>: its tag, its attributes (\<^verbatim>\<open>attrib\<close>) and
  its children in document order.
\<close>

datatype xml = Element (xml_tag: string) (xml_attrib: "(string \<times> string) list")
  (xml_children: "xml list")

text \<open>\<^verbatim>\<open>Element.iter()\<close>: the element itself, then its descendants, in document order.\<close>

fun iter :: "xml \<Rightarrow> xml list" where
  "iter (Element t a cs) = Element t a cs # concat (map iter cs)"

text \<open>
  \<^verbatim>\<open>root.findall(".//tag")\<close> and \<^verbatim>\<open>root.find(".//tag")\<close>. ElementTree evaluates the
  path \<^verbatim>\<open>.//tag\<close> as every element \<^verbatim>\<open>e\<close> of \<^verbatim>\<open>root.iter(tag)\<close> with
  \<^verbatim>\<open>e is not root\<close>: the elements below the root that carry the tag, in document order,
  never the root itself. \<^verbatim>\<open>find\<close> returns the first of them, or \<^verbatim>\<open>None\<close>.
\<close>

definition xml_findall :: "xml \<Rightarrow> string \<Rightarrow> xml list" where
  "xml_findall root_elem t = filter (\<lambda>e. xml_tag e = t) (concat (map iter (xml_children root_elem)))"

definition xml_find :: "xml \<Rightarrow> string \<Rightarrow> xml option" where
  "xml_find root_elem t = (case xml_findall root_elem t of [] \<Rightarrow> None | e # _ \<Rightarrow> Some e)"

text \<open>
  \<^verbatim>\<open>float(element.get(key, 0))\<close>. The builtin \<^verbatim>\<open>float\<close> on a string is the parameter
  \<open>pyfloat\<close>, with \<open>None\<close> for the \<^verbatim>\<open>ValueError\<close> it raises; \<^verbatim>\<open>float(0)\<close> is \<open>0\<close>.
\<close>

definition float_attr :: "(string \<Rightarrow> real option) \<Rightarrow> xml \<Rightarrow> string \<Rightarrow> real option" where
  "float_attr pyfloat e key =
     (case map_of (xml_attrib e) key of None \<Rightarrow> Some 0 | Some s \<Rightarrow> pyfloat s)"

text \<open>\<^verbatim>\<open>package.get("name", "unknown")\<close>\<close>

definition package_name_of :: "xml \<Rightarrow> string" where
  "package_name_of package =
     (case map_of (xml_attrib package) ''name'' of None \<Rightarrow> ''unknown'' | Some s \<Rightarrow> s)"

text \<open>
  What \<^verbatim>\<open>self.coverage_file\<close> holds: nothing (\<^verbatim>\<open>exists()\<close> is false), a file on which
  \<^verbatim>\<open>ET.parse\<close> raises, or a document with its root element.
\<close>

datatype artifact = Missing | Unparsable | Document xml

text \<open>
  \<^verbatim>\<open>parse_coverage_report\<close> returns \<^verbatim>\<open>None\<close> on three paths, each after printing its
  own message: the file does not exist (line 29), no coverage element was found (line 39),
  an exception was caught (line 72). The embedding returns which one it was.
\<close>

datatype load_failure = FileNotExists | NoCoverageElement | ParseFailed

text \<open>Lines 50 to 59: the loop that fills \<^verbatim>\<open>packages\<close>; \<open>None\<close> is a raised \<^verbatim>\<open>ValueError\<close>.\<close>

fun collect_packages ::
  "(string \<Rightarrow> real option) \<Rightarrow> xml list \<Rightarrow> (string \<times> package_data) list
     \<Rightarrow> (string \<times> package_data) list option" where
  "collect_packages pyfloat [] pkgs = Some pkgs"
| "collect_packages pyfloat (package # rest) pkgs =
     (case float_attr pyfloat package ''line-rate'' of
        None \<Rightarrow> None
      | Some package_line_rate \<Rightarrow>
          (case float_attr pyfloat package ''branch-rate'' of
             None \<Rightarrow> None
           | Some package_branch_rate \<Rightarrow>
               collect_packages pyfloat rest
                 (dict_set (package_name_of package)
                    \<lparr>line_coverage = package_line_rate * 100,
                     branch_coverage = package_branch_rate * 100\<rparr> pkgs)))"

definition parse_coverage_report ::
  "(string \<Rightarrow> real option) \<Rightarrow> artifact \<Rightarrow> load_failure + coverage_data" where
  "parse_coverage_report pyfloat file =
     (case file of
        Missing \<Rightarrow> Inl FileNotExists
      | Unparsable \<Rightarrow> Inl ParseFailed
      | Document root_elem \<Rightarrow>
          (case xml_find root_elem ''coverage'' of
             None \<Rightarrow> Inl NoCoverageElement
           | Some coverage_element \<Rightarrow>
               (case float_attr pyfloat coverage_element ''line-rate'' of
                  None \<Rightarrow> Inl ParseFailed
                | Some line_rate \<Rightarrow>
                    (case float_attr pyfloat coverage_element ''branch-rate'' of
                       None \<Rightarrow> Inl ParseFailed
                     | Some branch_rate \<Rightarrow>
                         (case collect_packages pyfloat (xml_findall root_elem ''package'') [] of
                            None \<Rightarrow> Inl ParseFailed
                          | Some pkgs \<Rightarrow>
                              Inr \<lparr>overall_line_coverage = line_rate * 100,
                                   overall_branch_coverage = branch_rate * 100,
                                   packages = pkgs,
                                   raw_line_rate = line_rate,
                                   raw_branch_rate = branch_rate\<rparr>)))))"

text \<open>
  Lines 231 to 252 of \<^verbatim>\<open>main\<close>: the exit code of a run with the targets \<open>tg\<close> taken
  from the flags.
\<close>

definition coverage_main :: "(string \<Rightarrow> real option) \<Rightarrow> targets \<Rightarrow> artifact \<Rightarrow> nat" where
  "coverage_main pyfloat tg file =
     (case parse_coverage_report pyfloat file of
        Inl failure \<Rightarrow> 1
      | Inr cd \<Rightarrow> if passed (check_coverage tg cd) then 0 else 1)"

text \<open>
  An instance of \<open>pyfloat\<close> for concrete documents: the value of \<^verbatim>\<open>float\<close> on a plain
  decimal literal, digits with an optional point and more digits. The builtin accepts more
  (signs, exponents, \<^verbatim>\<open>inf\<close>, \<^verbatim>\<open>nan\<close>); this instance gives \<open>None\<close> on everything
  else and is used on plain literals only.
\<close>

definition digit :: "char \<Rightarrow> nat option" where
  "digit c =
     (let code = (of_char c :: nat)
      in if 48 \<le> code \<and> code \<le> 57 then Some (code - 48) else None)"

fun digits_value :: "nat \<Rightarrow> string \<Rightarrow> nat option" where
  "digits_value acc [] = Some acc"
| "digits_value acc (c # cs) =
     (case digit c of None \<Rightarrow> None | Some d \<Rightarrow> digits_value (10 * acc + d) cs)"

definition decimal_float :: "string \<Rightarrow> real option" where
  "decimal_float s =
     (let ip = takeWhile (\<lambda>c. c \<noteq> CHR ''.'') s;
          rest = dropWhile (\<lambda>c. c \<noteq> CHR ''.'') s
      in if ip = [] then None
         else case digits_value 0 ip of
                None \<Rightarrow> None
              | Some i \<Rightarrow>
                  (case rest of
                     [] \<Rightarrow> Some (real i)
                   | _ # fp \<Rightarrow>
                       (case digits_value 0 fp of
                          None \<Rightarrow> None
                        | Some f \<Rightarrow> Some (real i + real f / 10 ^ length fp))))"


section \<open>check\_performance\_regression.py: the data\<close>

text \<open>
  The values that \<^verbatim>\<open>json.load\<close> returns. A number is a \<^typ>\<open>real\<close>; an object is the
  \<^verbatim>\<open>dict\<close> it is loaded into.
\<close>

datatype json = JNull | JBool bool | JNum real | JStr string | JArr "json list"
  | JObj "(string \<times> json) list"

text \<open>
  \<^verbatim>\<open>Dict[str, Any]\<close>, the annotated type of what \<^verbatim>\<open>load_benchmark_results\<close> returns and
  \<^verbatim>\<open>compare_benchmarks\<close> takes: the top level is a dict, the values are any JSON.
\<close>

type_synonym results = "(string \<times> json) list"












section \<open>check\_performance\_regression.py: the functions\<close>








section \<open>Notions used to state the properties\<close>



text \<open>
  The warnings that the loop over the packages appends: one for each package, in order,
  whose line coverage is below its target.
\<close>

definition package_warnings :: "targets \<Rightarrow> (string \<times> package_data) list \<Rightarrow> message list" where
  "package_warnings tg ps =
     map (\<lambda>p. PackageCoverageLow (fst p) (line_coverage (snd p)) (target_coverage tg (fst p)))
       (filter (\<lambda>p. line_coverage (snd p) < target_coverage tg (fst p)) ps)"


text \<open>
  The value that \<^verbatim>\<open>parse_coverage_report\<close> stores for a package element whose two rates
  convert (lines 53 to 59).
\<close>

definition package_entry :: "(string \<Rightarrow> real option) \<Rightarrow> xml \<Rightarrow> package_data" where
  "package_entry pyfloat package =
     \<lparr>line_coverage = the (float_attr pyfloat package ''line-rate'') * 100,
      branch_coverage = the (float_attr pyfloat package ''branch-rate'') * 100\<rparr>"

text \<open>
  Scenario B of the specification as a file that loads: the \<^verbatim>\<open>coverage\<close> element with
  line-rate 0.83 and branch-rate 0.78 below a root element, and no package. The same
  element as the root of the document is the Cobertura layout.
\<close>

definition scenario_b_file :: artifact where
  "scenario_b_file =
     Document (Element ''report'' []
       [Element ''coverage'' [(''line-rate'', ''0.83''), (''branch-rate'', ''0.78'')] []])"

definition cobertura_file :: artifact where
  "cobertura_file =
     Document (Element ''coverage'' [(''line-rate'', ''0.83''), (''branch-rate'', ''0.78'')]
       [Element ''packages'' []
          [Element ''package''
             [(''name'', ''ccusage_rs::core''), (''line-rate'', ''0.9''), (''branch-rate'', ''0.8'')]
             []]])"








section \<open>Properties of check\_coverage\<close>

lemma map_of_dict_set: "map_of (dict_set k v al) = (map_of al)(k \<mapsto> v)"
  by (induction al) (auto simp: fun_eq_iff)

lemma check_packages_Cons:
  "check_packages tg (p # ps) r = check_packages tg ps (check_package tg (fst p) (snd p) r)"
  by (cases p) simp

lemma check_package_passed: "passed (check_package tg n pd r) = passed r"
  by (simp add: check_package_def Let_def)

lemma check_package_failures: "failures (check_package tg n pd r) = failures r"
  by (simp add: check_package_def Let_def)

lemma check_package_warnings:
  "warnings (check_package tg n pd r) = warnings r @ package_warnings tg [(n, pd)]"
  by (simp add: check_package_def Let_def package_warnings_def)

lemma check_package_details:
  "details (check_package tg n pd r) =
     dict_set (package_key n) (package_result tg n pd) (details r)"
  by (simp add: check_package_def Let_def)

lemma check_packages_passed: "passed (check_packages tg ps r) = passed r"
  by (induction ps arbitrary: r) (simp_all add: check_packages_Cons check_package_passed)

lemma check_packages_failures: "failures (check_packages tg ps r) = failures r"
  by (induction ps arbitrary: r) (simp_all add: check_packages_Cons check_package_failures)

lemma package_warnings_Cons:
  "package_warnings tg (p # ps) = package_warnings tg [p] @ package_warnings tg ps"
  by (simp add: package_warnings_def)

lemma check_packages_warnings:
  "warnings (check_packages tg ps r) = warnings r @ package_warnings tg ps"
proof (induction ps arbitrary: r)
  case Nil
  show ?case by (simp add: package_warnings_def)
next
  case (Cons p ps)
  have "warnings (check_packages tg (p # ps) r)
          = (warnings r @ package_warnings tg [p]) @ package_warnings tg ps"
    by (simp add: check_packages_Cons Cons.IH check_package_warnings)
  then show ?case
    using package_warnings_Cons [of tg p ps] by simp
qed


lemma package_key_eq: "package_key a = package_key b \<longleftrightarrow> a = b"
  by (simp add: package_key_def)

lemma check_packages_details_package:
  "map_of (details (check_packages tg ps r)) (package_key n) =
     (case map_of (rev ps) n of
        None \<Rightarrow> map_of (details r) (package_key n)
      | Some pd \<Rightarrow> Some (package_result tg n pd))"
proof (induction ps arbitrary: r)
  case Nil
  show ?case by simp
next
  case (Cons p ps)
  show ?case
    by (cases "map_of (rev ps) n")
       (auto simp: check_packages_Cons Cons.IH check_package_details map_of_dict_set
          map_of_append map_add_def package_key_eq)
qed




lemma check_line_passed:
  "passed (check_line tg cd r) = (passed r \<and> line_target tg \<le> overall_line_coverage cd)"
  by (simp add: check_line_def Let_def not_less)

lemma check_line_failures:
  "failures (check_line tg cd r) = failures r @
     (if overall_line_coverage cd < line_target tg
      then [LineCoverageLow (overall_line_coverage cd) (line_target tg)] else [])"
  by (simp add: check_line_def Let_def)

lemma check_line_warnings:
  "warnings (check_line tg cd r) = warnings r @
     (if line_target tg \<le> overall_line_coverage cd
         \<and> overall_line_coverage cd < line_target tg + 5
      then [LineCoverageNear (overall_line_coverage cd)] else [])"
  by (simp add: check_line_def Let_def not_less)

lemma check_line_details:
  "details (check_line tg cd r) =
     dict_set ''line_coverage''
       \<lparr>current = overall_line_coverage cd, target = line_target tg,
        detail_passed = (line_target tg \<le> overall_line_coverage cd)\<rparr> (details r)"
  by (simp add: check_line_def Let_def)

lemma check_branch_passed:
  "passed (check_branch tg cd r) = (passed r \<and> branch_target tg \<le> overall_branch_coverage cd)"
  by (simp add: check_branch_def Let_def not_less)

lemma check_branch_failures:
  "failures (check_branch tg cd r) = failures r @
     (if overall_branch_coverage cd < branch_target tg
      then [BranchCoverageLow (overall_branch_coverage cd) (branch_target tg)] else [])"
  by (simp add: check_branch_def Let_def)

lemma check_branch_warnings:
  "warnings (check_branch tg cd r) = warnings r @
     (if branch_target tg \<le> overall_branch_coverage cd
         \<and> overall_branch_coverage cd < branch_target tg + 5
      then [BranchCoverageNear (overall_branch_coverage cd)] else [])"
  by (simp add: check_branch_def Let_def not_less)

lemma check_branch_details:
  "details (check_branch tg cd r) =
     dict_set ''branch_coverage''
       \<lparr>current = overall_branch_coverage cd, target = branch_target tg,
        detail_passed = (branch_target tg \<le> overall_branch_coverage cd)\<rparr> (details r)"
  by (simp add: check_branch_def Let_def)

lemma check_coverage_passed:
  "passed (check_coverage tg cd) =
     (line_target tg \<le> overall_line_coverage cd \<and> branch_target tg \<le> overall_branch_coverage cd)"
  by (simp add: check_coverage_def check_packages_passed check_branch_passed check_line_passed
        initial_results_def)

lemma check_coverage_failures:
  "failures (check_coverage tg cd) =
     (if overall_line_coverage cd < line_target tg
      then [LineCoverageLow (overall_line_coverage cd) (line_target tg)] else []) @
     (if overall_branch_coverage cd < branch_target tg
      then [BranchCoverageLow (overall_branch_coverage cd) (branch_target tg)] else [])"
  by (simp add: check_coverage_def check_packages_failures check_branch_failures
        check_line_failures initial_results_def)

lemma check_coverage_warnings:
  "warnings (check_coverage tg cd) =
     (if line_target tg \<le> overall_line_coverage cd
         \<and> overall_line_coverage cd < line_target tg + 5
      then [LineCoverageNear (overall_line_coverage cd)] else []) @
     (if branch_target tg \<le> overall_branch_coverage cd
         \<and> overall_branch_coverage cd < branch_target tg + 5
      then [BranchCoverageNear (overall_branch_coverage cd)] else []) @
     package_warnings tg (packages cd)"
  by (simp add: check_coverage_def check_packages_warnings check_branch_warnings
        check_line_warnings initial_results_def)

lemma package_key_not_overall:
  "package_key n \<noteq> ''line_coverage''" "package_key n \<noteq> ''branch_coverage''"
  by (simp_all add: package_key_def)



lemma check_coverage_details_package:
  "map_of (details (check_coverage tg cd)) (package_key n) =
     map_option (package_result tg n) (map_of (rev (packages cd)) n)"
  by (cases "map_of (rev (packages cd)) n")
     (simp_all add: check_coverage_def check_packages_details_package check_branch_details
        check_line_details map_of_dict_set package_key_not_overall initial_results_def)

lemma in_package_warnings:
  "m \<in> set (package_warnings tg ps) \<longleftrightarrow>
     (\<exists>p \<in> set ps. line_coverage (snd p) < target_coverage tg (fst p) \<and>
        m = PackageCoverageLow (fst p) (line_coverage (snd p)) (target_coverage tg (fst p)))"
  unfolding package_warnings_def by force

lemma in_check_coverage_warnings:
  "PackageCoverageLow n v t \<in> set (warnings (check_coverage tg cd)) \<longleftrightarrow>
     (\<exists>pd. (n, pd) \<in> set (packages cd) \<and> line_coverage pd = v
        \<and> t = target_coverage tg n \<and> v < t)"
  unfolding check_coverage_warnings by (force simp: in_package_warnings)


lemma check_coverage_ignores_overall:
  "check_coverage (tg\<lparr>overall_target := x\<rparr>) cd = check_coverage tg cd"
proof -
  have ck: "check_package (tg\<lparr>overall_target := x\<rparr>) = check_package tg"
    by (simp add: check_package_def target_coverage_def package_result_def fun_eq_iff Let_def)
  have pk: "check_packages (tg\<lparr>overall_target := x\<rparr>) ps r = check_packages tg ps r" for ps r
    by (induction ps arbitrary: r) (simp_all add: check_packages_Cons ck)
  have ln: "check_line (tg\<lparr>overall_target := x\<rparr>) = check_line tg"
    by (simp add: check_line_def fun_eq_iff Let_def)
  have br: "check_branch (tg\<lparr>overall_target := x\<rparr>) = check_branch tg"
    by (simp add: check_branch_def fun_eq_iff Let_def)
  show ?thesis
    by (simp add: check_coverage_def pk ln br)
qed

lemmas check_coverage_eval =
  check_coverage_def check_line_def check_branch_def check_package_def initial_results_def
  target_coverage_def startswith_def package_key_def package_result_def default_targets_def
  Let_def


section \<open>The claims about check\_coverage\<close>








text \<open>
  C6. For every package of the report: the target recorded for it in the details, and the
  target of every warning about it, is the \<^verbatim>\<open>function\<close> target when its name starts
  with \<^verbatim>\<open>ccusage_rs::\<close> and the \<^verbatim>\<open>line\<close> target otherwise; it is warned about exactly
  when its line coverage is below that target. When the names of the report are distinct,
  as the keys of a dict are, its entry in the details holds its own line coverage.
\<close>

theorem core_module_target:
  assumes "(n, pd) \<in> set (packages cd)"
  shows "(\<exists>d. map_of (details (check_coverage tg cd)) (package_key n) = Some d
            \<and> target d = (if startswith n ''ccusage_rs::''
                           then function_target tg else line_target tg))
       \<and> (PackageCoverageLow n (line_coverage pd)
             (if startswith n ''ccusage_rs::'' then function_target tg else line_target tg)
             \<in> set (warnings (check_coverage tg cd))
           \<longleftrightarrow> line_coverage pd
                 < (if startswith n ''ccusage_rs::'' then function_target tg else line_target tg))
       \<and> (\<forall>v t. PackageCoverageLow n v t \<in> set (warnings (check_coverage tg cd)) \<longrightarrow>
             t = (if startswith n ''ccusage_rs::'' then function_target tg else line_target tg))
       \<and> (distinct (map fst (packages cd)) \<longrightarrow>
             map_of (details (check_coverage tg cd)) (package_key n) =
               Some \<lparr>current = line_coverage pd,
                     target = (if startswith n ''ccusage_rs::''
                               then function_target tg else line_target tg),
                     detail_passed =
                       ((if startswith n ''ccusage_rs::''
                         then function_target tg else line_target tg) \<le> line_coverage pd)\<rparr>)"
proof -
  let ?t = "if startswith n ''ccusage_rs::'' then function_target tg else line_target tg"
  have t: "target_coverage tg n = ?t"
    by (simp add: target_coverage_def)
  have "n \<in> fst ` set (rev (packages cd))"
    using assms by (force simp: image_iff)
  then have "map_of (rev (packages cd)) n \<noteq> None"
    by (simp only: map_of_eq_None_iff not_not)
  then obtain pd' where pd': "map_of (rev (packages cd)) n = Some pd'"
    by blast
  have c1: "\<exists>d. map_of (details (check_coverage tg cd)) (package_key n) = Some d \<and> target d = ?t"
    by (simp add: check_coverage_details_package pd' package_result_def t)
  have c2: "PackageCoverageLow n (line_coverage pd) ?t \<in> set (warnings (check_coverage tg cd))
              \<longleftrightarrow> line_coverage pd < ?t"
    unfolding in_check_coverage_warnings t using assms by auto
  have c3: "\<forall>v t. PackageCoverageLow n v t \<in> set (warnings (check_coverage tg cd)) \<longrightarrow> t = ?t"
    unfolding in_check_coverage_warnings t by auto
  have c4: "map_of (details (check_coverage tg cd)) (package_key n) =
               Some \<lparr>current = line_coverage pd, target = ?t,
                     detail_passed = (?t \<le> line_coverage pd)\<rparr>"
    if d: "distinct (map fst (packages cd))"
  proof -
    have "distinct (map fst (rev (packages cd)))"
      using d by (simp add: rev_map [symmetric])
    then have "map_of (rev (packages cd)) n = Some pd"
      using assms by (simp add: map_of_eq_Some_iff)
    then show ?thesis
      by (simp add: check_coverage_details_package package_result_def t)
  qed
  from c1 c2 c3 c4 show ?thesis by blast
qed


theorem core_module_target_witness:
  "map_option target (map_of (details (check_coverage default_targets
        \<lparr>overall_line_coverage = 90, overall_branch_coverage = 90,
         packages = [(''ccusage_rs::core'', \<lparr>line_coverage = 82, branch_coverage = 60\<rparr>),
                     (''helper'', \<lparr>line_coverage = 82, branch_coverage = 60\<rparr>)],
         raw_line_rate = 9 / 10, raw_branch_rate = 9 / 10\<rparr>)) (package_key ''ccusage_rs::core''))
     = Some 85
   \<and> map_option target (map_of (details (check_coverage default_targets
        \<lparr>overall_line_coverage = 90, overall_branch_coverage = 90,
         packages = [(''ccusage_rs::core'', \<lparr>line_coverage = 82, branch_coverage = 60\<rparr>),
                     (''helper'', \<lparr>line_coverage = 82, branch_coverage = 60\<rparr>)],
         raw_line_rate = 9 / 10, raw_branch_rate = 9 / 10\<rparr>)) (package_key ''helper''))
     = Some 80
   \<and> warnings (check_coverage default_targets
        \<lparr>overall_line_coverage = 90, overall_branch_coverage = 90,
         packages = [(''ccusage_rs::core'', \<lparr>line_coverage = 82, branch_coverage = 60\<rparr>),
                     (''helper'', \<lparr>line_coverage = 82, branch_coverage = 60\<rparr>)],
         raw_line_rate = 9 / 10, raw_branch_rate = 9 / 10\<rparr>)
     = [PackageCoverageLow ''ccusage_rs::core'' 82 85]"
  using core_module_target [where n = "''ccusage_rs::core''"
        and pd = "\<lparr>line_coverage = 82, branch_coverage = 60\<rparr>" and tg = default_targets and cd =
        "\<lparr>overall_line_coverage = 90, overall_branch_coverage = 90,
         packages = [(''ccusage_rs::core'', \<lparr>line_coverage = 82, branch_coverage = 60\<rparr>),
                     (''helper'', \<lparr>line_coverage = 82, branch_coverage = 60\<rparr>)],
         raw_line_rate = 9 / 10, raw_branch_rate = 9 / 10\<rparr>"]
    core_module_target [where n = "''helper''"
        and pd = "\<lparr>line_coverage = 82, branch_coverage = 60\<rparr>" and tg = default_targets and cd =
        "\<lparr>overall_line_coverage = 90, overall_branch_coverage = 90,
         packages = [(''ccusage_rs::core'', \<lparr>line_coverage = 82, branch_coverage = 60\<rparr>),
                     (''helper'', \<lparr>line_coverage = 82, branch_coverage = 60\<rparr>)],
         raw_line_rate = 9 / 10, raw_branch_rate = 9 / 10\<rparr>"]
  by (simp add: check_coverage_eval)

text \<open>
  C9. The \<^verbatim>\<open>overall\<close> target, the value of the flag \<^verbatim>\<open>--overall-target\<close>, is never
  read by the evaluation: two runs of \<^verbatim>\<open>check_coverage\<close> whose targets differ only
  there return the same results (the passed flag, the failures, the warnings and the
  details), and \<^verbatim>\<open>main\<close> exits with the same code.
\<close>

theorem overall_target_unused:
  "check_coverage (tg\<lparr>overall_target := x\<rparr>) cd = check_coverage tg cd
   \<and> coverage_main pyfloat (tg\<lparr>overall_target := x\<rparr>) art = coverage_main pyfloat tg art"
  by (simp add: coverage_main_def check_coverage_ignores_overall split: sum.splits)

theorem overall_target_unused_witness:
  "check_coverage (default_targets\<lparr>overall_target := 100\<rparr>)
        \<lparr>overall_line_coverage = 83, overall_branch_coverage = 70, packages = [],
         raw_line_rate = 83 / 100, raw_branch_rate = 7 / 10\<rparr>
     = check_coverage default_targets
        \<lparr>overall_line_coverage = 83, overall_branch_coverage = 70, packages = [],
         raw_line_rate = 83 / 100, raw_branch_rate = 7 / 10\<rparr>
   \<and> coverage_main decimal_float (default_targets\<lparr>overall_target := 100\<rparr>) scenario_b_file
     = coverage_main decimal_float default_targets scenario_b_file"
  using overall_target_unused [where tg = default_targets and x = 100 and cd =
        "\<lparr>overall_line_coverage = 83, overall_branch_coverage = 70, packages = [],
         raw_line_rate = 83 / 100, raw_branch_rate = 7 / 10\<rparr>"
        and pyfloat = decimal_float and art = scenario_b_file]
  by simp


section \<open>Properties of parse\_coverage\_report\<close>

lemma float_attr_missing: "map_of (xml_attrib e) key = None \<Longrightarrow> float_attr pyfloat e key = Some 0"
  by (simp add: float_attr_def)

lemma float_attr_converts:
  "(\<forall>s. map_of (xml_attrib e) key = Some s \<longrightarrow> pyfloat s \<noteq> None) \<Longrightarrow>
     float_attr pyfloat e key \<noteq> None"
  by (cases "map_of (xml_attrib e) key") (simp_all add: float_attr_def)

lemma collect_packages_fold:
  "\<forall>p \<in> set ps. float_attr pyfloat p ''line-rate'' \<noteq> None
       \<and> float_attr pyfloat p ''branch-rate'' \<noteq> None \<Longrightarrow>
   collect_packages pyfloat ps acc =
     Some (fold (\<lambda>p. dict_set (package_name_of p) (package_entry pyfloat p)) ps acc)"
proof (induction ps arbitrary: acc)
  case Nil
  show ?case by simp
next
  case (Cons p ps)
  from Cons.prems obtain l b where
    l: "float_attr pyfloat p ''line-rate'' = Some l" and
    b: "float_attr pyfloat p ''branch-rate'' = Some b"
    by auto
  from Cons.prems have rest: "\<forall>q \<in> set ps. float_attr pyfloat q ''line-rate'' \<noteq> None
       \<and> float_attr pyfloat q ''branch-rate'' \<noteq> None"
    by simp
  show ?case
    by (simp add: l b package_entry_def Cons.IH [OF rest])
qed

lemma map_of_fold_dict_set:
  "map_of (fold (\<lambda>p. dict_set (f p) (g p)) ps acc) n =
     (case map_of (rev (map (\<lambda>p. (f p, g p)) ps)) n of
        None \<Rightarrow> map_of acc n
      | Some e \<Rightarrow> Some e)"
proof (induction ps arbitrary: acc)
  case Nil
  show ?case by simp
next
  case (Cons p ps)
  show ?case
    by (cases "map_of (rev (map (\<lambda>p. (f p, g p)) ps)) n")
       (simp_all add: Cons.IH map_of_dict_set map_of_append map_add_def)
qed

lemma map_of_last_occurrence:
  assumes "ps = before @ p # after" and "f p \<notin> f ` set after"
  shows "map_of (rev (map (\<lambda>p. (f p, g p)) ps)) (f p) = Some (g p)"
proof -
  have "map_of (rev (map (\<lambda>p. (f p, g p)) after)) (f p) = None"
    using assms(2) by (simp add: map_of_eq_None_iff image_image rev_map [symmetric])
  then show ?thesis
    by (simp add: assms(1) map_of_append map_add_def)
qed

lemma distinct_dict_set:
  "distinct (map fst al) \<Longrightarrow> distinct (map fst (dict_set k v al))"
  by (induction al) (auto simp: map_of_dict_set dom_map_of_conv_image_fst [symmetric]
       simp del: dom_map_of_conv_image_fst)

lemma parse_overall_coverage:
  "parse_coverage_report pyfloat art = Inr cd \<Longrightarrow>
     overall_line_coverage cd = raw_line_rate cd * 100
     \<and> overall_branch_coverage cd = raw_branch_rate cd * 100"
  by (auto simp: parse_coverage_report_def split: artifact.splits option.splits)

lemma parse_file_not_exists:
  "parse_coverage_report pyfloat art = Inl FileNotExists \<longleftrightarrow> art = Missing"
  by (auto simp: parse_coverage_report_def split: artifact.splits option.splits)

lemma xml_find_below_root:
  "xml_find (Element t a cs) key = xml_find (Element t' a' cs) key"
  by (simp add: xml_find_def xml_findall_def)

lemmas parse_eval =
  parse_coverage_report_def xml_find_def xml_findall_def float_attr_def package_name_of_def
  decimal_float_def digit_def coverage_main_def


section \<open>The claims about parse\_coverage\_report and main\<close>

text \<open>
  C1. According to the specification, a well-formed document whose top-level node
  carries the attributes \<^verbatim>\<open>line-rate\<close> and \<^verbatim>\<open>branch-rate\<close> loads. The code looks the
  aggregate element up with \<^verbatim>\<open>root.find(".//coverage")\<close>, which searches below the root
  only: a Cobertura report, whose root is the \<^verbatim>\<open>coverage\<close> element, is answered with
  the message that no coverage element was found, and the run exits with code 1.
\<close>

theorem cobertura_root_not_found:
  "parse_coverage_report decimal_float cobertura_file = Inl NoCoverageElement
   \<and> coverage_main decimal_float default_targets cobertura_file = 1"
  by (simp add: cobertura_file_def parse_eval)

text \<open>
  C10. Let the document have a \<^verbatim>\<open>coverage\<close> element below its root, and let every
  \<^verbatim>\<open>line-rate\<close> and \<^verbatim>\<open>branch-rate\<close> attribute that is present on it and on the
  \<^verbatim>\<open>package\<close> elements convert to a float. Then the report loads; a rate that the
  \<^verbatim>\<open>coverage\<close> element lacks is loaded as 0, and so is a rate that a \<^verbatim>\<open>package\<close>
  element lacks, in the entry of its name (which the last element of that name fills).
\<close>

theorem missing_rate_loads_as_zero:
  assumes "xml_find root_elem ''coverage'' = Some c"
    and "\<forall>e \<in> set (c # xml_findall root_elem ''package'').
           \<forall>key \<in> {''line-rate'', ''branch-rate''}.
             \<forall>s. map_of (xml_attrib e) key = Some s \<longrightarrow> pyfloat s \<noteq> None"
  shows "\<exists>cd. parse_coverage_report pyfloat (Document root_elem) = Inr cd
           \<and> (map_of (xml_attrib c) ''line-rate'' = None \<longrightarrow> overall_line_coverage cd = 0)
           \<and> (map_of (xml_attrib c) ''branch-rate'' = None \<longrightarrow> overall_branch_coverage cd = 0)
           \<and> (\<forall>before p after.
                 xml_findall root_elem ''package'' = before @ p # after
                 \<and> package_name_of p \<notin> package_name_of ` set after \<longrightarrow>
                 (\<exists>pd. map_of (packages cd) (package_name_of p) = Some pd
                    \<and> (map_of (xml_attrib p) ''line-rate'' = None \<longrightarrow> line_coverage pd = 0)
                    \<and> (map_of (xml_attrib p) ''branch-rate'' = None
                         \<longrightarrow> branch_coverage pd = 0)))"
proof -
  let ?ps = "xml_findall root_elem ''package''"
  let ?pkgs = "fold (\<lambda>p. dict_set (package_name_of p) (package_entry pyfloat p)) ?ps []"
  have conv: "float_attr pyfloat e key \<noteq> None"
    if "e \<in> set (c # ?ps)" and "key \<in> {''line-rate'', ''branch-rate''}" for e key
    using assms(2) that by (intro float_attr_converts) blast
  obtain l where l: "float_attr pyfloat c ''line-rate'' = Some l"
    using conv [of c "''line-rate''"] by auto
  obtain b where b: "float_attr pyfloat c ''branch-rate'' = Some b"
    using conv [of c "''branch-rate''"] by auto
  have "\<forall>p \<in> set ?ps. float_attr pyfloat p ''line-rate'' \<noteq> None
          \<and> float_attr pyfloat p ''branch-rate'' \<noteq> None"
    using conv by simp
  then have pk: "collect_packages pyfloat ?ps [] = Some ?pkgs"
    by (rule collect_packages_fold)
  define cd where "cd = \<lparr>overall_line_coverage = l * 100, overall_branch_coverage = b * 100,
    packages = ?pkgs, raw_line_rate = l, raw_branch_rate = b\<rparr>"
  have loads: "parse_coverage_report pyfloat (Document root_elem) = Inr cd"
    by (simp add: parse_coverage_report_def assms(1) l b pk cd_def)
  have line0: "overall_line_coverage cd = 0" if "map_of (xml_attrib c) ''line-rate'' = None"
    using float_attr_missing [OF that, of pyfloat] l by (simp add: cd_def)
  have branch0: "overall_branch_coverage cd = 0" if "map_of (xml_attrib c) ''branch-rate'' = None"
    using float_attr_missing [OF that, of pyfloat] b by (simp add: cd_def)
  have pkg: "\<exists>pd. map_of (packages cd) (package_name_of p) = Some pd
                \<and> (map_of (xml_attrib p) ''line-rate'' = None \<longrightarrow> line_coverage pd = 0)
                \<and> (map_of (xml_attrib p) ''branch-rate'' = None \<longrightarrow> branch_coverage pd = 0)"
    if split: "?ps = before @ p # after" and last: "package_name_of p \<notin> package_name_of ` set after"
    for before p after
  proof -
    have "map_of (packages cd) (package_name_of p) = Some (package_entry pyfloat p)"
      by (simp add: cd_def map_of_fold_dict_set map_of_last_occurrence [OF split last])
    then show ?thesis
      by (auto simp: package_entry_def float_attr_missing)
  qed
  show ?thesis
  proof (rule exI [of _ cd], intro conjI impI allI)
    show "parse_coverage_report pyfloat (Document root_elem) = Inr cd"
      by (rule loads)
  next
    assume "map_of (xml_attrib c) ''line-rate'' = None"
    then show "overall_line_coverage cd = 0" by (rule line0)
  next
    assume "map_of (xml_attrib c) ''branch-rate'' = None"
    then show "overall_branch_coverage cd = 0" by (rule branch0)
  next
    fix before p after
    assume "?ps = before @ p # after \<and> package_name_of p \<notin> package_name_of ` set after"
    then show "\<exists>pd. map_of (packages cd) (package_name_of p) = Some pd
                \<and> (map_of (xml_attrib p) ''line-rate'' = None \<longrightarrow> line_coverage pd = 0)
                \<and> (map_of (xml_attrib p) ''branch-rate'' = None \<longrightarrow> branch_coverage pd = 0)"
      using pkg by blast
  qed
qed

theorem missing_rate_loads_as_zero_witness:
  "parse_coverage_report decimal_float
     (Document (Element ''report'' []
        [Element ''coverage'' [(''branch-rate'', ''0.78'')] [],
         Element ''package'' [(''name'', ''helper''), (''line-rate'', ''0.5'')] []]))
   = Inr \<lparr>overall_line_coverage = 0, overall_branch_coverage = 78,
          packages = [(''helper'', \<lparr>line_coverage = 50, branch_coverage = 0\<rparr>)],
          raw_line_rate = 0, raw_branch_rate = 78 / 100\<rparr>"
  using missing_rate_loads_as_zero [where pyfloat = decimal_float
      and c = "Element ''coverage'' [(''branch-rate'', ''0.78'')] []"
      and root_elem = "Element ''report'' []
        [Element ''coverage'' [(''branch-rate'', ''0.78'')] [],
         Element ''package'' [(''name'', ''helper''), (''line-rate'', ''0.5'')] []]"]
  by (simp add: parse_eval)

text \<open>
  C8. A file that loads with line rate 0.83, branch rate 0.78 and no package, checked
  against the default targets: the run exits with code 0, there is no failure, and there
  are two warnings, one for the line coverage (83 is below 80 + 5) and one for the branch
  coverage (78 is below 75 + 5).
\<close>

theorem scenario_b_two_warnings:
  assumes "parse_coverage_report pyfloat art = Inr cd"
    and "raw_line_rate cd = 83 / 100" and "raw_branch_rate cd = 78 / 100"
    and "packages cd = []"
  shows "coverage_main pyfloat default_targets art = 0
       \<and> passed (check_coverage default_targets cd)
       \<and> failures (check_coverage default_targets cd) = []
       \<and> warnings (check_coverage default_targets cd)
           = [LineCoverageNear 83, BranchCoverageNear 78]"
proof -
  have l: "overall_line_coverage cd = 83" and b: "overall_branch_coverage cd = 78"
    using parse_overall_coverage [OF assms(1)] assms(2,3) by simp_all
  show ?thesis
    by (simp add: coverage_main_def assms(1,4) check_coverage_passed check_coverage_failures
          check_coverage_warnings l b default_targets_def package_warnings_def)
qed

theorem scenario_b_two_warnings_witness:
  "parse_coverage_report decimal_float scenario_b_file
     = Inr \<lparr>overall_line_coverage = 83, overall_branch_coverage = 78, packages = [],
            raw_line_rate = 83 / 100, raw_branch_rate = 78 / 100\<rparr>
   \<and> coverage_main decimal_float default_targets scenario_b_file = 0
   \<and> warnings (check_coverage default_targets
        \<lparr>overall_line_coverage = 83, overall_branch_coverage = 78, packages = [],
         raw_line_rate = 83 / 100, raw_branch_rate = 78 / 100\<rparr>)
       = [LineCoverageNear 83, BranchCoverageNear 78]"
  using scenario_b_two_warnings [where pyfloat = decimal_float and art = scenario_b_file
      and cd = "\<lparr>overall_line_coverage = 83, overall_branch_coverage = 78, packages = [],
            raw_line_rate = 83 / 100, raw_branch_rate = 78 / 100\<rparr>"]
  by (simp add: scenario_b_file_def parse_eval)

theorem scenario_b_one_warning_counterexample:
  "parse_coverage_report decimal_float scenario_b_file
     = Inr \<lparr>overall_line_coverage = 83, overall_branch_coverage = 78, packages = [],
            raw_line_rate = 83 / 100, raw_branch_rate = 78 / 100\<rparr>
   \<and> length (warnings (check_coverage default_targets
        \<lparr>overall_line_coverage = 83, overall_branch_coverage = 78, packages = [],
         raw_line_rate = 83 / 100, raw_branch_rate = 78 / 100\<rparr>)) \<noteq> 1"
  by (simp add: scenario_b_file_def parse_eval check_coverage_eval)


section \<open>Properties of compare\_benchmarks\<close>








section \<open>The claims about compare\_benchmarks\<close>








section \<open>Properties of check\_regressions\<close>











section \<open>The claim about check\_regressions\<close>



end
